theory Spec2Isabelle
  imports Complex_Main "HOL-Library.Sublist"
begin

section \<open>Files, documents and the log\<close>

text \<open>
  The PDF service works on files. A path is a string; the file system is a partial map
  from paths to file contents, together with the set of the directories that exist. The
  libraries the service calls (pypdf, PyMuPDF, reportlab) are seen through what they
  return or raise on a file of a given kind.
  Text is a byte string (UTF-8); positions on the page, which the source computes in
  floating point, are not part of a drawing operation here: an operation records what is
  drawn and in which order.
\<close>

type_synonym path = string

datatype exn =
    FileNotFoundError | PdfReadError | FileNotDecryptedError | ImportError
  | IndexError | RuntimeError | OSError | FileExistsError | ValueError | TypeError

datatype draw_op =
    SetFont string nat
  | SetFillColorRGB rat rat rat
  | SetStrokeColorRGB rat rat rat
  | SetLineWidth rat
  | DrawString string
  | DrawRightString string
  | Line
  | Rect
  | DrawImage path

datatype page = Page "draw_op list" | BlankPage

text \<open>
  \<open>Pdf enc pgs\<close> is a file that pypdf can open: \<open>enc\<close> is what \<open>is_encrypted\<close>
  reports and \<open>pgs\<close> is what reading \<open>reader.pages\<close> gives, the pages or the exception
  raised (a missing password, a damaged page tree). \<open>Png pg\<close> is the rendering of a page,
  \<open>EmptyFile\<close> a file just created, \<open>PartialFile\<close> a file whose writing was
  interrupted, \<open>OtherFile\<close> anything that is not a PDF.
\<close>

datatype file_data =
    Pdf bool "exn + page list"
  | Png page
  | EmptyFile
  | PartialFile
  | OtherFile

datatype level = DEBUG | INFO | WARNING | ERROR

text \<open>One constructor for each message the service logs, with the values it interpolates.\<close>

datatype event =
    PdfPasswordProtected path
  | PdfPageCount nat path
  | PdfReadFailed path exn
  | ThumbnailCreated path
  | FitzUnavailable
  | ThumbnailRenderFailed exn
  | ThumbnailInsertFailed exn
  | CoversheetCreated path
  | CoversheetFailed exn
  | PdfsMerged path
  | MergeFailed exn

record world =
  files :: "path \<rightharpoonup> file_data"
  dirs :: "path set"
  log_calls :: "(level \<times> event) list"

definition logger :: "level \<Rightarrow> event \<Rightarrow> world \<Rightarrow> world" where
  "logger lvl ev w = w\<lparr>log_calls := log_calls w @ [(lvl, ev)]\<rparr>"

record pdf_reader =
  is_encrypted :: bool
  pages :: "exn + page list"

text \<open>\<open>PdfReader(path)\<close>: raises on a missing file and on a file that is not a PDF.\<close>

definition PdfReader :: "world \<Rightarrow> path \<Rightarrow> exn + pdf_reader" where
  "PdfReader w p =
     (case files w p of
        None \<Rightarrow> Inl FileNotFoundError
      | Some (Pdf enc pgs) \<Rightarrow> Inr \<lparr>is_encrypted = enc, pages = pgs\<rparr>
      | Some _ \<Rightarrow> Inl PdfReadError)"

section \<open>PdfService.get_page_count\<close>

text \<open>
  The result is the pair \<open>(page_count, is_password_protected)\<close>; the whole body is inside
  \<open>try\<close>, and every exception ends in the same handler, which logs it and returns
  \<open>(None, False)\<close>.
\<close>

definition get_page_count :: "path \<Rightarrow> world \<Rightarrow> (nat option \<times> bool) \<times> world" where
  "get_page_count pdf_path w =
     (case PdfReader w pdf_path of
        Inl e \<Rightarrow> ((None, False), logger ERROR (PdfReadFailed pdf_path e) w)
      | Inr reader \<Rightarrow>
          if is_encrypted reader
          then ((None, True), logger WARNING (PdfPasswordProtected pdf_path) w)
          else (case pages reader of
                  Inl e \<Rightarrow> ((None, False), logger ERROR (PdfReadFailed pdf_path e) w)
                | Inr ps \<Rightarrow>
                    ((Some (length ps), False),
                     logger DEBUG (PdfPageCount (length ps) pdf_path) w)))"

text \<open>
  A path is unreadable with cause \<open>e\<close> when opening it raises \<open>e\<close>, or when the document
  opens, is not encrypted, and reading its pages raises \<open>e\<close>.
\<close>

definition unreadable :: "world \<Rightarrow> path \<Rightarrow> exn \<Rightarrow> bool" where
  "unreadable w p e =
     (case PdfReader w p of
        Inl e' \<Rightarrow> e' = e
      | Inr reader \<Rightarrow> \<not> is_encrypted reader \<and> pages reader = Inl e)"

section \<open>Orders\<close>

text \<open>
  The classes \<open>Order\<close>, \<open>User\<close> and \<open>PriceCalculation\<close> are declared outside the
  service; the records hold the attributes the service reads. A member of an enumeration
  (\<open>OrderStatus\<close>, \<open>ColorMode\<close>, \<open>BindingType\<close>) is represented by its \<open>.value\<close>,
  the string the service compares. Amounts of money are exact decimals.
\<close>

type_synonym OrderStatus = string
type_synonym ColorMode = string
type_synonym BindingType = string

record User =
  username :: string
  full_name :: string
  faculty :: "string option"

record PriceCalculation =
  color_mode :: ColorMode
  binding_type :: BindingType
  binding_size_mm :: "int option"
  pages_price :: rat
  binding_price :: rat
  total_price :: rat
  deposit :: rat

record datetime =
  year :: nat
  month :: nat
  day :: nat
  hour :: nat
  minute :: nat

record Order =
  order_id :: int
  filename :: string
  filepath :: "path option"
  created_at :: datetime
  parsed_username :: "string option"
  parsed_name :: "string option"
  page_count :: "int option"
  user :: "User option"
  price_calculation :: "PriceCalculation option"
  status :: OrderStatus

text \<open>
  Modelled from the spec: \<open>price_after_deposit\<close>, a property of \<open>PriceCalculation\<close>
  whose code is not among the sources; the data model gives it as
  \<open>max(0, total_price - deposit)\<close>.
\<close>

definition price_after_deposit :: "PriceCalculation \<Rightarrow> rat" where
  "price_after_deposit calc = max 0 (total_price calc - deposit calc)"

subsection \<open>Python values as text\<close>

text \<open>Truth of an optional string: neither \<open>None\<close> nor empty.\<close>

fun truthy :: "string option \<Rightarrow> bool" where
  "truthy None = False"
| "truthy (Some s) = (s \<noteq> [])"

fun str_value :: "string option \<Rightarrow> string" where
  "str_value None = []"
| "str_value (Some s) = s"

fun str_nat :: "nat \<Rightarrow> string" where
  "str_nat n =
     (if n < 10 then [''0123456789'' ! n]
      else str_nat (n div 10) @ [''0123456789'' ! (n mod 10)])"

declare str_nat.simps [simp del]

definition str_int :: "int \<Rightarrow> string" where
  "str_int i = (if i < 0 then ''-'' @ str_nat (nat (- i)) else str_nat (nat i))"

definition zfill :: "nat \<Rightarrow> string \<Rightarrow> string" where
  "zfill n s = replicate (n - length s) (CHR ''0'') @ s"

text \<open>
  \<open>strftime("%d.%m.%Y %H:%M")\<close>. The C library decides how many digits \<open>%Y\<close> pads
  the year to: none with glibc, four elsewhere; \<open>width\<close> is that number.
\<close>

definition strftime :: "nat \<Rightarrow> datetime \<Rightarrow> string" where
  "strftime width t =
     zfill 2 (str_nat (day t)) @ ''.'' @ zfill 2 (str_nat (month t)) @ ''.'' @
     zfill width (str_nat (year t)) @ '' '' @
     zfill 2 (str_nat (hour t)) @ '':'' @ zfill 2 (str_nat (minute t))"

fun join :: "string \<Rightarrow> string list \<Rightarrow> string" where
  "join sep [] = []"
| "join sep [x] = x"
| "join sep (x # y # ys) = x @ sep @ join sep (y # ys)"

text \<open>The characters beyond ASCII that the cover sheet prints, as UTF-8.\<close>

definition u2013 :: string where
  "u2013 = [CHR 0xE2, CHR 0x80, CHR 0x93]"

definition u2022 :: string where
  "u2022 = [CHR 0xE2, CHR 0x80, CHR 0xA2]"

definition u20ac :: string where
  "u20ac = [CHR 0xE2, CHR 0x82, CHR 0xAC]"

definition u00e4 :: string where
  "u00e4 = [CHR 0xC3, CHR 0xA4]"

definition u00df :: string where
  "u00df = [CHR 0xC3, CHR 0x9F]"

section \<open>What the environment does\<close>

text \<open>
  Each operation of the operating system or of a library that can fail does so or not
  as the environment says. \<open>mkdir_allowed d\<close> says whether the directory \<open>d\<close> can be
  created; \<open>stat_ok\<close> whether \<open>Path.exists\<close> can examine the path, which it reports by
  raising when it cannot (no permission, a name too long). \<open>fitz_doc\<close> is what PyMuPDF
  makes of a file: the exception \<open>fitz.open\<close> raises, or the document as the list of its
  pages, each of which loads or raises when it is accessed. \<open>tmp_name\<close> is the name
  \<open>NamedTemporaryFile\<close> picks. \<open>year_width\<close> is the width of \<open>%Y\<close>.
  \<open>format_price\<close> renders an amount as the \<open>..._formatted\<close> properties of
  \<open>PriceCalculation\<close> do; their code is not among the sources.
\<close>

record env =
  mkdir_allowed :: "path \<Rightarrow> bool"
  stat_ok :: bool
  fitz_available :: bool
  fitz_doc :: "file_data \<Rightarrow> exn + (exn + page) list"
  pixmap_ok :: bool
  tmpfile_ok :: bool
  tmp_name :: string
  pix_save_ok :: bool
  image_reader_ok :: bool
  draw_image_ok :: bool
  canvas_save_ok :: bool
  unlink_ok :: bool
  open_ok :: bool
  write_ok :: bool
  year_width :: nat
  format_price :: "rat \<Rightarrow> string"

section \<open>Directories\<close>

text \<open>
  The directories above a path, the outermost first: the prefixes of the path that end
  before a slash. Paths are written without repeated slashes and without dots.
\<close>

fun parents_from :: "string \<Rightarrow> string \<Rightarrow> path list" where
  "parents_from seen [] = []"
| "parents_from seen (c # cs) =
     (if c = CHR ''/'' \<and> seen \<noteq> [] then seen # parents_from (seen @ [c]) cs
      else parents_from (seen @ [c]) cs)"

definition parents :: "path \<Rightarrow> path list" where
  "parents p = parents_from [] p"

text \<open>
  \<open>output_path.parent.mkdir(parents=True, exist_ok=True)\<close> creates the missing
  directories from the outermost on. A directory that exists is passed over; a file in
  the place of a directory and a directory that may not be created raise, and what has
  been created by then stays.
\<close>

fun make_dirs :: "env \<Rightarrow> path list \<Rightarrow> world \<Rightarrow> (exn + unit) \<times> world" where
  "make_dirs env [] w = (Inr (), w)"
| "make_dirs env (d # ds) w =
     (if d \<in> dirs w then make_dirs env ds w
      else if files w d \<noteq> None then (Inl FileExistsError, w)
      else if \<not> mkdir_allowed env d then (Inl OSError, w)
      else make_dirs env ds (w\<lparr>dirs := insert d (dirs w)\<rparr>))"

text \<open>
  \<open>Path.exists\<close>: true of a file and of a directory; it raises when the path cannot
  be examined.
\<close>

definition path_exists :: "env \<Rightarrow> world \<Rightarrow> path \<Rightarrow> exn + bool" where
  "path_exists env w p =
     (if \<not> stat_ok env then Inl OSError
      else Inr (files w p \<noteq> None \<or> p \<in> dirs w))"

section \<open>PdfService: rendering the thumbnail\<close>

text \<open>\<open>fitz.open\<close>: the document that PyMuPDF makes of the file, or the exception raised.\<close>

definition fitz_open :: "env \<Rightarrow> world \<Rightarrow> path \<Rightarrow> exn + (exn + page) list" where
  "fitz_open env w p =
     (case files w p of
        None \<Rightarrow> Inl FileNotFoundError
      | Some f \<Rightarrow> fitz_doc env f)"

text \<open>The temporary file gets the suffix \<open>.png\<close>.\<close>

definition tmp_path :: "env \<Rightarrow> path" where
  "tmp_path env = tmp_name env @ ''.png''"

text \<open>
  The result is the path of the temporary PNG file or \<open>None\<close>. \<open>ImportError\<close> is
  logged at debug level, every other exception as a warning; both return \<open>None\<close>.
  \<open>NamedTemporaryFile(delete=False)\<close> creates an empty file under a name that no file
  has; \<open>pix.save\<close> then writes the image into it.
\<close>

definition render_page_thumbnail :: "env \<Rightarrow> path \<Rightarrow> nat \<Rightarrow> world \<Rightarrow> path option \<times> world" where
  "render_page_thumbnail env pdf_path page_index w =
     (if \<not> fitz_available env then (None, logger DEBUG FitzUnavailable w)
      else case fitz_open env w pdf_path of
        Inl e \<Rightarrow> (None, logger WARNING (ThumbnailRenderFailed e) w)
      | Inr doc \<Rightarrow>
          if length doc = 0 then (None, w)
          else if length doc \<le> page_index
          then (None, logger WARNING (ThumbnailRenderFailed IndexError) w)
          else (case doc ! page_index of
             Inl e \<Rightarrow> (None, logger WARNING (ThumbnailRenderFailed e) w)
           | Inr pg \<Rightarrow>
               if \<not> pixmap_ok env
               then (None, logger WARNING (ThumbnailRenderFailed RuntimeError) w)
               else if \<not> tmpfile_ok env
               then (None, logger WARNING (ThumbnailRenderFailed OSError) w)
               else if files w (tmp_path env) \<noteq> None
               then (None, logger WARNING (ThumbnailRenderFailed FileExistsError) w)
               else
                 let w1 = w\<lparr>files := (files w)(tmp_path env \<mapsto> EmptyFile)\<rparr> in
                 if \<not> pix_save_ok env
                 then (None, logger WARNING (ThumbnailRenderFailed OSError) w1)
                 else (Some (tmp_path env),
                       logger DEBUG (ThumbnailCreated (tmp_path env))
                         (w1\<lparr>files := (files w1)(tmp_path env \<mapsto> Png pg)\<rparr>))))"

section \<open>PdfService: the cover sheet\<close>

definition header_ops :: "draw_op list" where
  "header_ops =
     [SetFont ''Helvetica'' 10, SetFillColorRGB (4/10) (4/10) (4/10),
      DrawString (''Fachschaft Maschinenbau '' @ u2013 @ '' Skriptendruck''),
      SetFillColorRGB 0 0 0]"

text \<open>The name printed large: the \<open>if\<close>/\<open>elif\<close> chain of the source.\<close>

definition name_text :: "Order \<Rightarrow> string" where
  "name_text order =
     (case user order of
        Some u \<Rightarrow> full_name u
      | None \<Rightarrow>
          if truthy (parsed_name order) then str_value (parsed_name order)
          else if truthy (parsed_username order) then str_value (parsed_username order)
          else ''Unbekannt'')"

definition name_ops :: "Order \<Rightarrow> draw_op list" where
  "name_ops order = [SetFont ''Helvetica-Bold'' 24, DrawString (name_text order)]"

definition user_ops :: "Order \<Rightarrow> draw_op list" where
  "user_ops order =
     (case user order of
        None \<Rightarrow> []
      | Some u \<Rightarrow>
          [SetFont ''Helvetica'' 11, SetFillColorRGB (3/10) (3/10) (3/10),
           DrawString
             (join (''   '' @ u2022 @ ''   '')
                ([''RZ-Kennung: '' @ username u] @
                 (if truthy (faculty u)
                  then [''Fakult'' @ u00e4 @ ''t: '' @ str_value (faculty u)] else []))),
           SetFillColorRGB 0 0 0])"

definition separator_ops :: "draw_op list" where
  "separator_ops = [SetStrokeColorRGB (7/10) (7/10) (7/10), SetLineWidth 1, Line]"

definition draw_field :: "string \<Rightarrow> string \<Rightarrow> bool \<Rightarrow> draw_op list" where
  "draw_field label val bold_value =
     [SetFont ''Helvetica-Bold'' 10, DrawString label,
      SetFont (if bold_value then ''Helvetica-Bold'' else ''Helvetica'') 10, DrawString val]"

definition info_ops :: "env \<Rightarrow> Order \<Rightarrow> draw_op list" where
  "info_ops env order =
     draw_field ''Auftrags-ID:'' (''#'' @ str_int (order_id order)) False @
     draw_field ''Datum:'' (strftime (year_width env) (created_at order)) False @
     draw_field ''Dateiname:'' (filename order) False @
     (case page_count order of
        None \<Rightarrow> []
      | Some n \<Rightarrow> if n \<noteq> 0 then draw_field ''Seitenzahl:'' (str_int n) False else [])"

definition binding_text :: "env \<Rightarrow> PriceCalculation \<Rightarrow> string" where
  "binding_text env calc =
     (if binding_type calc = ''none'' then ''Ohne Bindung''
      else if binding_type calc = ''folder''
      then ''Schnellhefter ('' @ format_price env (binding_price calc) @ '')''
      else
        ''Ringbindung ('' @ format_price env (binding_price calc) @ '')'' @
        (case binding_size_mm calc of
           None \<Rightarrow> []
         | Some n \<Rightarrow> if n \<noteq> 0 then '' '' @ u2013 @ '' '' @ str_int n @ '' mm'' else []))"

definition price_ops :: "env \<Rightarrow> Order \<Rightarrow> draw_op list" where
  "price_ops env order =
     (case price_calculation order of
        None \<Rightarrow> []
      | Some calc \<Rightarrow>
          draw_field ''Druck:''
            ((if color_mode calc = ''color'' then ''Farbe'' else ''Schwarz-Wei'' @ u00df) @
             '' ('' @ format_price env (pages_price calc) @ '')'') False @
          draw_field ''Bindung:'' (binding_text env calc) False @
          draw_field ''Gesamtpreis:'' (format_price env (total_price calc)) False @
          [SetFont ''Helvetica-Bold'' 10, DrawString ''Zu zahlen:'',
           SetFont ''Helvetica-Bold'' 18,
           DrawString (format_price env (price_after_deposit calc)),
           SetFont ''Helvetica'' 9, SetFillColorRGB (4/10) (4/10) (4/10),
           DrawString (''(abzgl. 1,00 '' @ u20ac @ '' Anzahlung)''),
           SetFillColorRGB 0 0 0])"

text \<open>
  The preview. \<open>ImageReader\<close> reads the PNG file; the label and the frame are drawn
  before the image, so they stay when \<open>drawImage\<close> raises. Every exception is logged
  as a warning and goes no further.
\<close>

fun is_png :: "file_data option \<Rightarrow> bool" where
  "is_png (Some (Png pg)) = True"
| "is_png _ = False"

definition preview_frame :: "draw_op list" where
  "preview_frame =
     [SetFont ''Helvetica'' 8, SetFillColorRGB (4/10) (4/10) (4/10),
      DrawString ''Vorschau:'', SetFillColorRGB 0 0 0,
      SetStrokeColorRGB (8/10) (8/10) (8/10), SetLineWidth (1/2), Rect]"

definition thumbnail_ops :: "env \<Rightarrow> path option \<Rightarrow> world \<Rightarrow> draw_op list \<times> world" where
  "thumbnail_ops env thumbnail_path w =
     (case thumbnail_path of
        None \<Rightarrow> ([], w)
      | Some p \<Rightarrow>
          if p = [] then ([], w)
          else if \<not> image_reader_ok env
          then ([], logger WARNING (ThumbnailInsertFailed OSError) w)
          else if \<not> is_png (files w p)
          then ([], logger WARNING (ThumbnailInsertFailed OSError) w)
          else if \<not> draw_image_ok env
          then (preview_frame, logger WARNING (ThumbnailInsertFailed OSError) w)
          else (preview_frame @ [DrawImage p], w))"

definition banner_ops :: "draw_op list" where
  "banner_ops =
     [SetFillColorRGB (8/10) 0 0, SetFont ''Helvetica-Bold'' 10,
      DrawString ''ACHTUNG: Dateiname nicht korrekt!'',
      SetFont ''Helvetica'' 9,
      DrawString (''Bitte n'' @ u00e4 @ ''chstes Mal richtig benennen:''),
      DrawString ''RZ-Kennung_sw/farbig_mb/ob/sh_001.pdf'',
      SetFillColorRGB 0 0 0]"

definition footer_ops :: "Order \<Rightarrow> draw_op list" where
  "footer_ops order =
     [SetFillColorRGB (5/10) (5/10) (5/10), SetFont ''Helvetica'' 8,
      DrawString (''Fachschaft Maschinenbau '' @ u2013 @ '' Hochschule Regensburg''),
      DrawRightString (''Auftrag #'' @ str_int (order_id order)),
      SetFillColorRGB 0 0 0]"

text \<open>
  The page as it is drawn, from the header to the footer; \<open>preview\<close> is what the
  thumbnail block has drawn.
\<close>

definition canvas_ops :: "env \<Rightarrow> Order \<Rightarrow> draw_op list \<Rightarrow> draw_op list" where
  "canvas_ops env order preview =
     header_ops @ name_ops order @ user_ops order @ separator_ops @
     info_ops env order @ price_ops env order @ preview @
     (if status order = ''error_invalid_filename'' then banner_ops else []) @
     footer_ops order"

text \<open>
  The thumbnail is rendered only if the order has a file path and the path exists. The
  test \<open>order.filepath.exists()\<close> has no handler of its own: when it raises, the
  exception leaves the \<open>try\<close> body.
\<close>

definition thumbnail_for :: "env \<Rightarrow> Order \<Rightarrow> world \<Rightarrow> exn + path option \<times> world" where
  "thumbnail_for env order w =
     (case filepath order of
        None \<Rightarrow> Inr (None, w)
      | Some fp \<Rightarrow>
          (case path_exists env w fp of
             Inl e \<Rightarrow> Inl e
           | Inr found \<Rightarrow>
               if found then Inr (render_page_thumbnail env fp 0 w) else Inr (None, w)))"

text \<open>
  The body of \<open>try\<close>: the value of \<open>thumbnail_path\<close> when the body ends, the
  exception it raised if any, and the world it leaves. \<open>c.save()\<close> writes the one page
  of the canvas to \<open>output_path\<close>.
\<close>

definition coversheet_try ::
  "env \<Rightarrow> Order \<Rightarrow> path \<Rightarrow> world \<Rightarrow> path option \<times> (exn + unit) \<times> world" where
  "coversheet_try env order output_path w =
     (case make_dirs env (parents output_path) w of
        (Inl e, w0) \<Rightarrow> (None, Inl e, w0)
      | (Inr u, w0) \<Rightarrow>
          (case thumbnail_for env order w0 of
             Inl e \<Rightarrow> (None, Inl e, w0)
           | Inr (thumbnail_path, w1) \<Rightarrow>
               let (preview, w2) = thumbnail_ops env thumbnail_path w1
               in if \<not> canvas_save_ok env then (thumbnail_path, Inl OSError, w2)
                  else (thumbnail_path, Inr (),
                        logger INFO (CoversheetCreated output_path)
                          (w2\<lparr>files := (files w2)
                             (output_path \<mapsto>
                                Pdf False (Inr [Page (canvas_ops env order preview)]))\<rparr>))))"

text \<open>
  The \<open>finally\<close> block: the thumbnail file is unlinked if \<open>thumbnail_path\<close> is set;
  an exception of \<open>unlink\<close> is dropped.
\<close>

definition cleanup :: "env \<Rightarrow> path option \<Rightarrow> world \<Rightarrow> world" where
  "cleanup env thumbnail_path w =
     (case thumbnail_path of
        None \<Rightarrow> w
      | Some p \<Rightarrow>
          if p = [] then w
          else if unlink_ok env then w\<lparr>files := (files w)(p := None)\<rparr>
          else w)"

definition create_coversheet :: "env \<Rightarrow> Order \<Rightarrow> path \<Rightarrow> world \<Rightarrow> bool \<times> world" where
  "create_coversheet env order output_path w =
     (case coversheet_try env order output_path w of
        (thumbnail_path, Inr u, w') \<Rightarrow> (True, cleanup env thumbnail_path w')
      | (thumbnail_path, Inl e, w') \<Rightarrow>
          (False, cleanup env thumbnail_path (logger ERROR (CoversheetFailed e) w')))"

section \<open>PdfService: merging\<close>

text \<open>Opening a document and reading its pages, as the loops over \<open>reader.pages\<close> do.\<close>

definition read_pages :: "world \<Rightarrow> path \<Rightarrow> exn + page list" where
  "read_pages w p = (case PdfReader w p of Inl e \<Rightarrow> Inl e | Inr reader \<Rightarrow> pages reader)"

text \<open>
  The body of \<open>try\<close>. The directories above \<open>output_path\<close> are created first and
  stay whatever happens next. The writer collects the pages; \<open>open(output_path, "wb")\<close>
  creates or truncates the output file, and \<open>writer.write\<close> fills it. When the write
  raises, the file stays as far as it was written.
\<close>

definition merge_try :: "env \<Rightarrow> path \<Rightarrow> path \<Rightarrow> path \<Rightarrow> bool \<Rightarrow> world \<Rightarrow> (exn + unit) \<times> world" where
  "merge_try env coversheet_path document_path output_path add_empty_page w =
     (case make_dirs env (parents output_path) w of
        (Inl e, w0) \<Rightarrow> (Inl e, w0)
      | (Inr u, w0) \<Rightarrow>
          (case read_pages w0 coversheet_path of
             Inl e \<Rightarrow> (Inl e, w0)
           | Inr coversheet_pages \<Rightarrow>
               (case read_pages w0 document_path of
                  Inl e \<Rightarrow> (Inl e, w0)
                | Inr document_pages \<Rightarrow>
                    let writer =
                          coversheet_pages @ (if add_empty_page then [BlankPage] else []) @
                          document_pages
                    in if \<not> open_ok env then (Inl OSError, w0)
                       else if \<not> write_ok env
                       then (Inl OSError,
                             w0\<lparr>files := (files w0)(output_path \<mapsto> PartialFile)\<rparr>)
                       else (Inr (),
                             w0\<lparr>files := (files w0)
                                (output_path \<mapsto> Pdf False (Inr writer))\<rparr>))))"

definition merge_pdfs :: "env \<Rightarrow> path \<Rightarrow> path \<Rightarrow> path \<Rightarrow> bool \<Rightarrow> world \<Rightarrow> bool \<times> world" where
  "merge_pdfs env coversheet_path document_path output_path add_empty_page w =
     (case merge_try env coversheet_path document_path output_path add_empty_page w of
        (Inr u, w') \<Rightarrow> (True, logger INFO (PdfsMerged output_path) w')
      | (Inl e, w') \<Rightarrow> (False, logger ERROR (MergeFailed e) w'))"

text \<open>What the thumbnail block draws in a call of \<open>create_coversheet\<close>.\<close>

definition preview_of :: "env \<Rightarrow> Order \<Rightarrow> path \<Rightarrow> world \<Rightarrow> draw_op list" where
  "preview_of env order output_path w =
     (case thumbnail_for env order (snd (make_dirs env (parents output_path) w)) of
        Inl e \<Rightarrow> []
      | Inr (thumbnail_path, w1) \<Rightarrow> fst (thumbnail_ops env thumbnail_path w1))"

section \<open>Reading a cover sheet back\<close>

text \<open>The drawing operations of a file that is an unencrypted PDF of one drawn page.\<close>

fun single_page_ops :: "file_data option \<Rightarrow> draw_op list option" where
  "single_page_ops (Some (Pdf False (Inr [Page ops]))) = Some ops"
| "single_page_ops _ = None"

definition coversheet_at :: "world \<Rightarrow> path \<Rightarrow> draw_op list option" where
  "coversheet_at w p = single_page_ops (files w p)"

fun is_draw_image :: "draw_op \<Rightarrow> bool" where
  "is_draw_image (DrawImage p) = True"
| "is_draw_image _ = False"

text \<open>The text drawn right after the font is set to Helvetica-Bold 24.\<close>

fun prominent_text :: "draw_op list \<Rightarrow> string option" where
  "prominent_text [] = None"
| "prominent_text [x] = None"
| "prominent_text (x # y # ops) =
     (case (x, y) of
        (SetFont f n, DrawString t) \<Rightarrow>
          if f = ''Helvetica-Bold'' \<and> n = 24 then Some t else prominent_text (y # ops)
      | _ \<Rightarrow> prominent_text (y # ops))"

definition displayed_name :: "world \<Rightarrow> path \<Rightarrow> string option" where
  "displayed_name w p =
     (case coversheet_at w p of None \<Rightarrow> None | Some ops \<Rightarrow> prominent_text ops)"

text \<open>
  The warning banner as it is to be read on the page: in red, the line that says that
  the file name is not correct, the request to name the file properly next time, and the
  naming convention; then the colour is set back to black.
\<close>

definition has_banner :: "world \<Rightarrow> path \<Rightarrow> bool" where
  "has_banner w p =
     (case coversheet_at w p of
        None \<Rightarrow> False
      | Some ops \<Rightarrow>
          sublist
            [SetFillColorRGB (8/10) 0 0, SetFont ''Helvetica-Bold'' 10,
             DrawString ''ACHTUNG: Dateiname nicht korrekt!'',
             SetFont ''Helvetica'' 9,
             DrawString (''Bitte n'' @ [CHR 0xC3, CHR 0xA4] @ ''chstes Mal richtig benennen:''),
             DrawString ''RZ-Kennung_sw/farbig_mb/ob/sh_001.pdf'',
             SetFillColorRGB 0 0 0]
            ops)"




section \<open>Pricing\<close>

text \<open>
  Modelled from the spec: the pricing engine (\<open>PricingService\<close>), whose code is not
  among the sources. The rate per page depends on the colour mode only; the binding fee
  is zero for no binding, a fixed fee for a folder and a fee looked up by size for a ring
  binding; the total is the sum of both; the deposit is a fixed amount. The look-up of
  the ring fee, with its policy for a size that the table does not have, is a parameter.
\<close>

record price_table =
  bw_rate :: rat
  color_rate :: rat
  folder_fee :: rat
  ring_fee :: "int option \<Rightarrow> rat"
  deposit_amount :: rat

definition price :: "price_table \<Rightarrow> nat \<Rightarrow> ColorMode \<Rightarrow> BindingType \<Rightarrow> int option \<Rightarrow> PriceCalculation" where
  "price tbl n_pages cm bt size_mm =
     (let pp = of_nat n_pages * (if cm = ''color'' then color_rate tbl else bw_rate tbl);
          bp = (if bt = ''none'' then 0
                else if bt = ''folder'' then folder_fee tbl
                else ring_fee tbl size_mm)
      in \<lparr>color_mode = cm, binding_type = bt, binding_size_mm = size_mm,
          pages_price = pp, binding_price = bp, total_price = pp + bp,
          deposit = deposit_amount tbl\<rparr>)"

section \<open>Logging\<close>

text \<open>
  \<open>getattr(logging, level.upper(), logging.INFO)\<close> finds an attribute of the standard
  logging module whose name has no lower-case letter: one of the level constants, the
  string \<open>BASIC_FORMAT\<close> or the dictionary \<open>_STYLES\<close>.
\<close>

datatype pyval = PyInt int | PyStr string | PyDict

definition upper_char :: "char \<Rightarrow> char" where
  "upper_char c =
     (case map_of (zip ''abcdefghijklmnopqrstuvwxyz'' ''ABCDEFGHIJKLMNOPQRSTUVWXYZ'') c of
        Some u \<Rightarrow> u
      | None \<Rightarrow> c)"

text \<open>
  \<open>str.upper\<close> on UTF-8 text, as far as the look-up of an attribute can tell. The
  ASCII letters are folded, and so are the ten characters beyond ASCII whose upper-case
  form is ASCII: the sharp s (\<open>SS\<close>), the dotless i (\<open>I\<close>), the long s (\<open>S\<close>) and the
  ligatures U+FB00 to U+FB06 (\<open>FF\<close>, \<open>FI\<close>, \<open>FL\<close>, \<open>FFI\<close>, \<open>FFL\<close>, \<open>ST\<close>, \<open>ST\<close>).
  The upper-case form of any other character beyond ASCII has a character beyond ASCII,
  which no attribute name has; such a character is left as it is.
\<close>

definition ligature_upper :: "char \<Rightarrow> string" where
  "ligature_upper c =
     (case map_of [(CHR 0x80, ''FF''), (CHR 0x81, ''FI''), (CHR 0x82, ''FL''),
                   (CHR 0x83, ''FFI''), (CHR 0x84, ''FFL''), (CHR 0x85, ''ST''),
                   (CHR 0x86, ''ST'')] c of
        Some u \<Rightarrow> u
      | None \<Rightarrow> [])"

fun upper :: "string \<Rightarrow> string" where
  "upper [] = []"
| "upper [a] = [upper_char a]"
| "upper [a, b] =
     (if a = CHR 0xC3 \<and> b = CHR 0x9F then ''SS''
      else if a = CHR 0xC4 \<and> b = CHR 0xB1 then ''I''
      else if a = CHR 0xC5 \<and> b = CHR 0xBF then ''S''
      else upper_char a # upper [b])"
| "upper (a # b # c # cs) =
     (if a = CHR 0xC3 \<and> b = CHR 0x9F then ''SS'' @ upper (c # cs)
      else if a = CHR 0xC4 \<and> b = CHR 0xB1 then ''I'' @ upper (c # cs)
      else if a = CHR 0xC5 \<and> b = CHR 0xBF then ''S'' @ upper (c # cs)
      else if a = CHR 0xEF \<and> b = CHR 0xAC \<and> ligature_upper c \<noteq> []
      then ligature_upper c @ upper cs
      else upper_char a # upper (b # c # cs))"

definition name_to_level :: "string \<Rightarrow> int option" where
  "name_to_level =
     map_of [(''CRITICAL'', 50), (''FATAL'', 50), (''ERROR'', 40), (''WARN'', 30),
             (''WARNING'', 30), (''INFO'', 20), (''DEBUG'', 10), (''NOTSET'', 0)]"

definition logging_attr :: "string \<Rightarrow> pyval option" where
  "logging_attr name =
     (case name_to_level name of
        Some n \<Rightarrow> Some (PyInt n)
      | None \<Rightarrow>
          if name = ''BASIC_FORMAT'' then Some (PyStr ''%(levelname)s:%(name)s:%(message)s'')
          else if name = ''_STYLES'' then Some PyDict
          else None)"

definition log_level_of :: "string \<Rightarrow> pyval" where
  "log_level_of level =
     (case logging_attr (upper level) of Some v \<Rightarrow> v | None \<Rightarrow> PyInt 20)"

text \<open>
  What \<open>setLevel\<close> does with its argument: an integer is taken as it is, a string must
  be the name of a level, anything else is a type error.
\<close>

definition checkLevel :: "pyval \<Rightarrow> exn + int" where
  "checkLevel v =
     (case v of
        PyInt n \<Rightarrow> Inr n
      | PyStr s \<Rightarrow> (case name_to_level s of Some n \<Rightarrow> Inr n | None \<Rightarrow> Inl ValueError)
      | PyDict \<Rightarrow> Inl TypeError)"

text \<open>
  A handler has a kind, a level and a formatter, \<open>None\<close> for the handler's own. The state
  is the logger \<open>skriptendruck\<close>, the root logger and the module's flag
  \<open>_logging_configured\<close>.
\<close>

datatype formatter = FileFormatter

datatype handler_kind = RichHandler | StreamHandler | FileHandler path | NullHandler

record handler =
  kind :: handler_kind
  handler_level :: int
  handler_formatter :: "formatter option"

record logger_rec =
  handlers :: "handler list"
  logger_level :: int
  propagate :: bool

record logging_state =
  app_logger :: logger_rec
  root_logger :: logger_rec
  logging_configured :: bool

record log_env =
  log_mkdir_ok :: bool
  file_handler_ok :: bool

definition addHandler :: "handler \<Rightarrow> logger_rec \<Rightarrow> logger_rec" where
  "addHandler h lg = lg\<lparr>handlers := handlers lg @ [h]\<rparr>"

text \<open>
  The end of \<open>setup_logging\<close>: the root logger gets a \<open>NullHandler\<close> if it has no
  handler, its level becomes \<open>WARNING\<close>, and the flag is set.
\<close>

definition secure_root :: "logging_state \<Rightarrow> logging_state" where
  "secure_root s =
     (let root = root_logger s;
          root1 = (if handlers root = []
                   then addHandler \<lparr>kind = NullHandler, handler_level = 0,
                                    handler_formatter = None\<rparr> root
                   else root)
      in s\<lparr>root_logger := root1\<lparr>logger_level := 30\<rparr>, logging_configured := True\<rparr>)"

text \<open>
  \<open>setup_logging\<close> returns the logger or raises; the state is left as it is at that
  point. The handlers are cleared first; \<open>setLevel\<close> can raise; the console handler is
  added; with a log file, creating its directory and opening it can raise. The state
  holds the loggers only, not the file system.
\<close>

definition setup_logging ::
  "log_env \<Rightarrow> string \<Rightarrow> path option \<Rightarrow> bool \<Rightarrow> logging_state \<Rightarrow> (exn + unit) \<times> logging_state" where
  "setup_logging env level log_file use_rich s =
     (let log_level = log_level_of level;
          s1 = s\<lparr>app_logger := (app_logger s)\<lparr>handlers := []\<rparr>\<rparr>
      in case checkLevel log_level of
        Inl e \<Rightarrow> (Inl e, s1)
      | Inr lv \<Rightarrow>
          let console_handler =
                (if use_rich
                 then \<lparr>kind = RichHandler, handler_level = lv, handler_formatter = None\<rparr>
                 else \<lparr>kind = StreamHandler, handler_level = lv,
                       handler_formatter = Some FileFormatter\<rparr>);
              s2 = s1\<lparr>app_logger :=
                     addHandler console_handler
                       ((app_logger s1)\<lparr>logger_level := lv, propagate := False\<rparr>)\<rparr>
          in (case log_file of
                None \<Rightarrow> (Inr (), secure_root s2)
              | Some f \<Rightarrow>
                  if \<not> log_mkdir_ok env then (Inl OSError, s2)
                  else if \<not> file_handler_ok env then (Inl OSError, s2)
                  else
                    let file_handler =
                          \<lparr>kind = FileHandler f, handler_level = 10,
                           handler_formatter = Some FileFormatter\<rparr>
                    in (Inr (),
                        secure_root
                          (s2\<lparr>app_logger := addHandler file_handler (app_logger s2)\<rparr>))))"

text \<open>
  \<open>get_logger\<close> configures logging with level \<open>INFO\<close>, no log file and the rich
  handler if that has not been done, and returns the logger \<open>skriptendruck.\<close> followed by the name,
  here its name.
\<close>

definition get_logger :: "log_env \<Rightarrow> string \<Rightarrow> logging_state \<Rightarrow> (exn + string) \<times> logging_state" where
  "get_logger env name s =
     (if \<not> logging_configured s
      then (case setup_logging env ''INFO'' None True s of
              (Inl e, s') \<Rightarrow> (Inl e, s')
            | (Inr u, s') \<Rightarrow> (Inr (''skriptendruck.'' @ name), s'))
      else (Inr (''skriptendruck.'' @ name), s))"






text \<open>Exactly one console handler, at most one file handler, and no other handler.\<close>

fun is_console :: "handler \<Rightarrow> bool" where
  "is_console h = (kind h = RichHandler \<or> kind h = StreamHandler)"

fun is_file :: "handler \<Rightarrow> bool" where
  "is_file h = (case kind h of FileHandler f \<Rightarrow> True | _ \<Rightarrow> False)"

definition handlers_ok :: "handler list \<Rightarrow> bool" where
  "handlers_ok hs =
     (length (filter is_console hs) = 1 \<and> length (filter is_file hs) \<le> 1 \<and>
      length hs = length (filter is_console hs) + length (filter is_file hs))"



section \<open>Examples\<close>

text \<open>A small file system, an environment in which everything works, and some orders.\<close>

definition page_a :: page where
  "page_a = Page [DrawString ''a'']"

definition page_b :: page where
  "page_b = Page [DrawString ''b'']"

definition cover_page :: page where
  "cover_page = Page [DrawString ''cover'']"

definition w0 :: world where
  "w0 = \<lparr>files = [''doc.pdf'' \<mapsto> Pdf False (Inr [page_a, page_b]),
                   ''cover.pdf'' \<mapsto> Pdf False (Inr [cover_page]),
                   ''secret.pdf'' \<mapsto> Pdf True (Inl FileNotDecryptedError),
                   ''broken.pdf'' \<mapsto> OtherFile],
          dirs = {''/tmp''},
          log_calls = []\<rparr>"

text \<open>
  PyMuPDF in the examples: a readable PDF opens with its pages, an encrypted one opens
  and raises when a page is accessed, an image opens as a document of one page.
\<close>

fun fitz_example :: "file_data \<Rightarrow> exn + (exn + page) list" where
  "fitz_example (Pdf False (Inr ps)) = Inr (map Inr ps)"
| "fitz_example (Pdf True (Inr ps)) = Inr (map (\<lambda>pg. Inl ValueError) ps)"
| "fitz_example (Pdf enc (Inl e)) = Inr [Inl ValueError]"
| "fitz_example (Png pg) = Inr [Inr pg]"
| "fitz_example EmptyFile = Inl RuntimeError"
| "fitz_example PartialFile = Inl RuntimeError"
| "fitz_example OtherFile = Inl RuntimeError"

text \<open>Amounts in the examples are printed in euros and cents, cut off after the cents.\<close>

definition format_eur :: "rat \<Rightarrow> string" where
  "format_eur r =
     (let cents = nat \<lfloor>r * 100\<rfloor>
      in str_nat (cents div 100) @ '','' @ zfill 2 (str_nat (cents mod 100)) @ '' '' @ u20ac)"

definition env_ok :: env where
  "env_ok =
     \<lparr>mkdir_allowed = (\<lambda>d. True), stat_ok = True, fitz_available = True,
      fitz_doc = fitz_example, pixmap_ok = True, tmpfile_ok = True,
      tmp_name = ''/tmp/tmpk3v9'', pix_save_ok = True, image_reader_ok = True,
      draw_image_ok = True, canvas_save_ok = True, unlink_ok = True, open_ok = True,
      write_ok = True, year_width = 0, format_price = format_eur\<rparr>"

definition order1 :: Order where
  "order1 =
     \<lparr>order_id = 7, filename = ''ab12345_sw_mb_001.pdf'', filepath = Some ''doc.pdf'',
      created_at = \<lparr>year = 2024, month = 5, day = 3, hour = 9, minute = 30\<rparr>,
      parsed_username = Some ''ab12345'', parsed_name = None, page_count = Some 2,
      user = None, price_calculation = None, status = ''processed''\<rparr>"



definition env_render_fails :: env where
  "env_render_fails = env_ok\<lparr>pixmap_ok := False\<rparr>"


definition env_stat_fails :: env where
  "env_stat_fails = env_ok\<lparr>stat_ok := False\<rparr>"

definition env_unlink_fails :: env where
  "env_unlink_fails = env_ok\<lparr>unlink_ok := False\<rparr>"

definition env_pix_save_fails :: env where
  "env_pix_save_fails = env_ok\<lparr>pix_save_ok := False\<rparr>"

definition env_canvas_save_fails :: env where
  "env_canvas_save_fails = env_ok\<lparr>canvas_save_ok := False\<rparr>"

definition env_write_fails :: env where
  "env_write_fails = env_ok\<lparr>write_ok := False\<rparr>"

definition order_invalid :: Order where
  "order_invalid = order1\<lparr>filename := ''skript.pdf'', parsed_username := None,
     status := ''error_invalid_filename''\<rparr>"

definition order_unnamed_user :: Order where
  "order_unnamed_user =
     order1\<lparr>user := Some \<lparr>username = ''ab12345'', full_name = [], faculty = None\<rparr>\<rparr>"

definition table1 :: price_table where
  "table1 = \<lparr>bw_rate = 4/100, color_rate = 10/100, folder_fee = 1/2,
              ring_fee = (\<lambda>s. 2), deposit_amount = 1\<rparr>"








definition sheet_invalid :: "draw_op list" where
  "sheet_invalid =
      [SetFont ''Helvetica'' 10, SetFillColorRGB (4/10) (4/10) (4/10),
       DrawString (''Fachschaft Maschinenbau '' @ [CHR 0xE2, CHR 0x80, CHR 0x93] @ '' Skriptendruck''),
       SetFillColorRGB 0 0 0,
       SetFont ''Helvetica-Bold'' 24, DrawString ''Unbekannt'',
       SetStrokeColorRGB (7/10) (7/10) (7/10), SetLineWidth 1, Line,
       SetFont ''Helvetica-Bold'' 10, DrawString ''Auftrags-ID:'',
       SetFont ''Helvetica'' 10, DrawString ''#7'',
       SetFont ''Helvetica-Bold'' 10, DrawString ''Datum:'',
       SetFont ''Helvetica'' 10, DrawString ''03.05.2024 09:30'',
       SetFont ''Helvetica-Bold'' 10, DrawString ''Dateiname:'',
       SetFont ''Helvetica'' 10, DrawString ''skript.pdf'',
       SetFont ''Helvetica-Bold'' 10, DrawString ''Seitenzahl:'',
       SetFont ''Helvetica'' 10, DrawString ''2'',
       SetFont ''Helvetica'' 8, SetFillColorRGB (4/10) (4/10) (4/10),
       DrawString ''Vorschau:'', SetFillColorRGB 0 0 0,
       SetStrokeColorRGB (8/10) (8/10) (8/10), SetLineWidth (1/2), Rect,
       DrawImage ''/tmp/tmpk3v9.png'',
       SetFillColorRGB (8/10) 0 0, SetFont ''Helvetica-Bold'' 10,
       DrawString ''ACHTUNG: Dateiname nicht korrekt!'',
       SetFont ''Helvetica'' 9,
       DrawString (''Bitte n'' @ [CHR 0xC3, CHR 0xA4] @ ''chstes Mal richtig benennen:''),
       DrawString ''RZ-Kennung_sw/farbig_mb/ob/sh_001.pdf'',
       SetFillColorRGB 0 0 0,
       SetFillColorRGB (5/10) (5/10) (5/10), SetFont ''Helvetica'' 8,
       DrawString (''Fachschaft Maschinenbau '' @ [CHR 0xE2, CHR 0x80, CHR 0x93] @
                   '' Hochschule Regensburg''),
       DrawRightString ''Auftrag #7'',
       SetFillColorRGB 0 0 0]"

section \<open>Helper facts\<close>

lemma files_logger [simp]: "files (logger lvl ev w) = files w"
  by (simp add: logger_def)

lemma dirs_logger [simp]: "dirs (logger lvl ev w) = dirs w"
  by (simp add: logger_def)

lemma make_dirs_files [simp]: "files (snd (make_dirs env ds w)) = files w"
  by (induction ds arbitrary: w) simp_all

lemma make_dirs_log [simp]: "log_calls (snd (make_dirs env ds w)) = log_calls w"
  by (induction ds arbitrary: w) simp_all

lemma make_dirs_dirs:
  "dirs w \<subseteq> dirs (snd (make_dirs env ds w)) \<and> dirs (snd (make_dirs env ds w)) \<subseteq> dirs w \<union> set ds"
proof (induction ds arbitrary: w)
  case Nil
  show ?case by simp
next
  case (Cons d ds)
  show ?case
    using Cons.IH [of w] Cons.IH [of "w\<lparr>dirs := insert d (dirs w)\<rparr>"]
    by auto
qed

lemma make_dirs_all:
  "fst (make_dirs env ds w) = Inr () \<Longrightarrow> dirs (snd (make_dirs env ds w)) = dirs w \<union> set ds"
proof (induction ds arbitrary: w)
  case Nil
  show ?case by simp
next
  case (Cons d ds)
  show ?case
  proof (cases "d \<in> dirs w")
    case True
    with Cons.prems Cons.IH [of w] show ?thesis by auto
  next
    case False
    with Cons.prems have a: "files w d = None" "mkdir_allowed env d"
      and b: "fst (make_dirs env ds (w\<lparr>dirs := insert d (dirs w)\<rparr>)) = Inr ()"
      by (auto split: if_splits)
    from Cons.IH [OF b] False a show ?thesis by auto
  qed
qed

lemma render_page_thumbnail_path:
  "fst (render_page_thumbnail env fp n w) = None \<or>
   fst (render_page_thumbnail env fp n w) = Some (tmp_path env)"
  by (simp add: render_page_thumbnail_def Let_def split: sum.splits)

lemma thumbnail_for_path:
  assumes "thumbnail_for env order w = Inr (tp, w1)"
  shows "tp = None \<or> tp = Some (tmp_path env)"
proof (cases "filepath order")
  case None
  with assms show ?thesis by (simp add: thumbnail_for_def)
next
  case (Some fp)
  with assms have "(tp, w1) = render_page_thumbnail env fp 0 w \<or> tp = None"
    by (auto simp: thumbnail_for_def split: sum.splits if_splits)
  then show ?thesis
    using render_page_thumbnail_path [of env fp 0 w] by (metis fst_conv)
qed

lemma thumbnail_for_files:
  assumes "thumbnail_for env order w = Inr (Some p, w1)"
  shows "p = tmp_path env \<and> files w p = None"
proof (cases "filepath order")
  case None
  with assms show ?thesis by (simp add: thumbnail_for_def)
next
  case (Some fp)
  with assms have "render_page_thumbnail env fp 0 w = (Some p, w1)"
    by (auto simp: thumbnail_for_def split: sum.splits if_splits)
  then show ?thesis
    by (auto simp: render_page_thumbnail_def Let_def split: sum.splits if_splits)
qed

lemma thumbnail_ops_files [simp]: "files (snd (thumbnail_ops env tp w)) = files w"
  by (simp add: thumbnail_ops_def split: option.splits)

lemma thumbnail_for_raises:
  "isl (thumbnail_for env order w) = (filepath order \<noteq> None \<and> \<not> stat_ok env)"
  by (simp add: thumbnail_for_def path_exists_def split: option.splits)

lemma create_coversheet_ok_iff:
  "fst (create_coversheet env order out w) =
     (fst (make_dirs env (parents out) w) = Inr () \<and> (filepath order = None \<or> stat_ok env) \<and>
      canvas_save_ok env)"
proof -
  obtain r w0 where m: "make_dirs env (parents out) w = (r, w0)"
    by (cases "make_dirs env (parents out) w")
  show ?thesis
    using thumbnail_for_raises [of env order w0]
    by (cases r; cases "thumbnail_for env order w0")
      (auto simp: create_coversheet_def coversheet_try_def m Let_def split: prod.splits)
qed

lemma coversheet_written:
  assumes "fst (create_coversheet env order out w)" and "tmp_path env \<noteq> out"
  shows "coversheet_at (snd (create_coversheet env order out w)) out =
           Some (canvas_ops env order (preview_of env order out w))"
proof -
  obtain r w0 where m: "make_dirs env (parents out) w = (r, w0)"
    by (cases "make_dirs env (parents out) w")
  from assms(1) have ok: "r = Inr ()" "\<not> isl (thumbnail_for env order w0)" "canvas_save_ok env"
    using m by (simp_all add: create_coversheet_ok_iff thumbnail_for_raises)
  from ok(2) obtain tp w1 where t: "thumbnail_for env order w0 = Inr (tp, w1)"
    by (cases "thumbnail_for env order w0") auto
  obtain pv w2 where o: "thumbnail_ops env tp w1 = (pv, w2)" by (cases "thumbnail_ops env tp w1")
  from thumbnail_for_path [OF t] have tp: "tp = None \<or> tp = Some (tmp_path env)" .
  have "files (cleanup env tp w') out = files w' out" for w'
    using tp assms(2) by (auto simp: cleanup_def)
  then show ?thesis
    using ok m t o
    by (simp add: create_coversheet_def coversheet_try_def coversheet_at_def preview_of_def)
qed

lemma coversheet_try_thumbnail:
  assumes "fst (coversheet_try env order output_path w) = Some p"
  shows "\<exists>w1. thumbnail_for env order (snd (make_dirs env (parents output_path) w)) =
           Inr (Some p, w1)"
proof -
  obtain r w0 where m: "make_dirs env (parents output_path) w = (r, w0)"
    by (cases "make_dirs env (parents output_path) w")
  show ?thesis
  proof (cases r)
    case (Inl e)
    with assms m show ?thesis by (simp add: coversheet_try_def)
  next
    case (Inr u)
    show ?thesis
    proof (cases "thumbnail_for env order w0")
      case (Inl e)
      with assms m Inr show ?thesis by (simp add: coversheet_try_def)
    next
      case t: (Inr x)
      obtain tp w1 where x: "x = (tp, w1)" by (cases x)
      from assms m Inr t x have "tp = Some p"
        by (simp add: coversheet_try_def Let_def split: prod.splits if_splits)
      with t x m show ?thesis by simp
    qed
  qed
qed

lemma coversheet_try_path:
  assumes "fst (coversheet_try env order output_path w) = Some p"
  shows "p = tmp_path env \<and> files w p = None"
proof -
  from coversheet_try_thumbnail [OF assms] obtain w1 where
    "thumbnail_for env order (snd (make_dirs env (parents output_path) w)) = Inr (Some p, w1)"
    by blast
  from thumbnail_for_files [OF this] show ?thesis
    by auto
qed




lemma list_ex_fixed_ops [simp]:
  "\<not> list_ex is_draw_image header_ops"
  "\<not> list_ex is_draw_image (name_ops order)"
  "\<not> list_ex is_draw_image (user_ops order)"
  "\<not> list_ex is_draw_image separator_ops"
  "\<not> list_ex is_draw_image (info_ops env order)"
  "\<not> list_ex is_draw_image (price_ops env order)"
  "\<not> list_ex is_draw_image banner_ops"
  "\<not> list_ex is_draw_image (footer_ops order)"
  "\<not> list_ex is_draw_image preview_frame"
  by (simp_all add: header_ops_def name_ops_def user_ops_def separator_ops_def info_ops_def
      price_ops_def banner_ops_def footer_ops_def draw_field_def preview_frame_def
      split: option.splits)


lemma prominent_text_canvas:
  "prominent_text (canvas_ops env order preview) = Some (name_text order)"
  by (simp add: canvas_ops_def header_ops_def name_ops_def)


lemma red_not_in_fixed_ops [simp]:
  "SetFillColorRGB (4/5) 0 0 \<notin> set header_ops"
  "SetFillColorRGB (4/5) 0 0 \<notin> set (name_ops order)"
  "SetFillColorRGB (4/5) 0 0 \<notin> set (user_ops order)"
  "SetFillColorRGB (4/5) 0 0 \<notin> set separator_ops"
  "SetFillColorRGB (4/5) 0 0 \<notin> set (info_ops env order)"
  "SetFillColorRGB (4/5) 0 0 \<notin> set (price_ops env order)"
  "SetFillColorRGB (4/5) 0 0 \<notin> set (footer_ops order)"
  by (simp_all add: header_ops_def name_ops_def user_ops_def separator_ops_def info_ops_def
      price_ops_def footer_ops_def draw_field_def split: option.splits)

lemma red_not_in_preview [simp]:
  "SetFillColorRGB (4/5) 0 0 \<notin> set (fst (thumbnail_ops env tp w))"
  by (simp add: thumbnail_ops_def preview_frame_def split: option.splits)

lemma red_not_in_preview_of: "SetFillColorRGB (8/10) 0 0 \<notin> set (preview_of env order out w)"
  by (simp add: preview_of_def split: sum.splits prod.splits)

lemma banner_in_canvas:
  assumes "SetFillColorRGB (8/10) 0 0 \<notin> set preview"
  shows "sublist banner_ops (canvas_ops env order preview) =
           (status order = ''error_invalid_filename'')"
proof (cases "status order = ''error_invalid_filename''")
  case True
  have "sublist banner_ops
          ((header_ops @ name_ops order @ user_ops order @ separator_ops @
            info_ops env order @ price_ops env order @ preview) @ banner_ops @ footer_ops order)"
    by (rule sublist_appendI)
  with True show ?thesis by (simp add: canvas_ops_def)
next
  case False
  have "SetFillColorRGB (8/10) 0 0 \<in> set banner_ops"
    by (simp add: banner_ops_def)
  moreover have "SetFillColorRGB (8/10) 0 0 \<notin> set (canvas_ops env order preview)"
    using False assms by (simp add: canvas_ops_def)
  ultimately have "\<not> sublist banner_ops (canvas_ops env order preview)"
    using set_mono_sublist by blast
  with False show ?thesis by simp
qed

lemma banner_text:
  "banner_ops =
     [SetFillColorRGB (8/10) 0 0, SetFont ''Helvetica-Bold'' 10,
      DrawString ''ACHTUNG: Dateiname nicht korrekt!'',
      SetFont ''Helvetica'' 9,
      DrawString (''Bitte n'' @ [CHR 0xC3, CHR 0xA4] @ ''chstes Mal richtig benennen:''),
      DrawString ''RZ-Kennung_sw/farbig_mb/ob/sh_001.pdf'',
      SetFillColorRGB 0 0 0]"
  by (simp add: banner_ops_def u00e4_def)

lemma name_text_precedence:
  "(\<forall>u. user order = Some u \<longrightarrow> name_text order = full_name u) \<and>
   (user order = None \<and> truthy (parsed_name order) \<longrightarrow>
      Some (name_text order) = parsed_name order) \<and>
   (user order = None \<and> \<not> truthy (parsed_name order) \<and> truthy (parsed_username order) \<longrightarrow>
      Some (name_text order) = parsed_username order) \<and>
   (user order = None \<and> \<not> truthy (parsed_name order) \<and> \<not> truthy (parsed_username order) \<longrightarrow>
      name_text order = ''Unbekannt'') \<and>
   ((\<forall>u. user order = Some u \<longrightarrow> full_name u \<noteq> []) \<longrightarrow> name_text order \<noteq> [])"
  by (cases "parsed_name order"; cases "parsed_username order"; cases "user order")
    (simp_all add: name_text_def)

lemma read_pages_files: "files w' = files w \<Longrightarrow> read_pages w' p = read_pages w p"
  by (simp add: read_pages_def PdfReader_def)

lemma merge_pdfs_ok:
  assumes "fst (merge_pdfs env cs doc out blank w)"
  shows "\<exists>cps dps. fst (make_dirs env (parents out) w) = Inr () \<and> open_ok env \<and> write_ok env \<and>
           read_pages w cs = Inr cps \<and> read_pages w doc = Inr dps \<and>
           files (snd (merge_pdfs env cs doc out blank w)) =
             (files w)(out \<mapsto> Pdf False (Inr (cps @ (if blank then [BlankPage] else []) @ dps)))"
proof -
  obtain r w0 where m: "make_dirs env (parents out) w = (r, w0)"
    by (cases "make_dirs env (parents out) w")
  have f: "files w0 = files w" using make_dirs_files [of env "parents out" w] m by simp
  note rp = read_pages_files [OF f]
  show ?thesis
    using assms f
    by (cases r) (auto simp: merge_pdfs_def merge_try_def m rp Let_def split: sum.splits if_splits)
qed

section \<open>merge_pdfs\<close>

text \<open>
  C1, as amended. A call of \<open>merge_pdfs\<close> that fails before the output file is open
  (creating a directory, reading either input or opening the output fails) leaves every
  file as it was. Of the directories it removes none and creates none but missing
  directories above \<open>output_path\<close>, all of them unless creating one is what failed; they
  stay after the call. The merge writes straight to \<open>output_path\<close>, with no temporary
  file and no move: when it fails after the output file is open, that is while writing,
  a partial file is left at \<open>output_path\<close>.
\<close>

theorem merge_pdfs_failure:
  assumes "\<not> fst (merge_pdfs env coversheet_path document_path output_path add_empty_page w)"
  shows "files (snd (merge_pdfs env coversheet_path document_path output_path add_empty_page w)) =
           (if fst (make_dirs env (parents output_path) w) = Inr () \<and>
               \<not> isl (read_pages w coversheet_path) \<and>
               \<not> isl (read_pages w document_path) \<and> open_ok env
            then (files w)(output_path \<mapsto> PartialFile) else files w) \<and>
         dirs w \<subseteq> dirs (snd (merge_pdfs env coversheet_path document_path output_path
                                add_empty_page w)) \<and>
         dirs (snd (merge_pdfs env coversheet_path document_path output_path add_empty_page w))
           \<subseteq> dirs w \<union> set (parents output_path) \<and>
         (fst (make_dirs env (parents output_path) w) = Inr () \<longrightarrow>
            dirs (snd (merge_pdfs env coversheet_path document_path output_path
                         add_empty_page w)) = dirs w \<union> set (parents output_path))"
proof -
  obtain r w0 where m: "make_dirs env (parents output_path) w = (r, w0)"
    by (cases "make_dirs env (parents output_path) w")
  have f: "files w0 = files w" using make_dirs_files [of env "parents output_path" w] m by simp
  note rp = read_pages_files [OF f]
  have d: "dirs (snd (merge_pdfs env coversheet_path document_path output_path add_empty_page w))
             = dirs w0"
    by (cases r) (auto simp: merge_pdfs_def merge_try_def m Let_def split: sum.splits)
  have d1: "dirs w \<subseteq> dirs w0 \<and> dirs w0 \<subseteq> dirs w \<union> set (parents output_path)"
    using make_dirs_dirs [of w env "parents output_path"] m by simp
  have d2: "r = Inr () \<longrightarrow> dirs w0 = dirs w \<union> set (parents output_path)"
    using make_dirs_all [of env "parents output_path" w] m by simp
  have fl: "files (snd (merge_pdfs env coversheet_path document_path output_path add_empty_page w)) =
           (if r = Inr () \<and> \<not> isl (read_pages w coversheet_path) \<and>
               \<not> isl (read_pages w document_path) \<and> open_ok env
            then (files w)(output_path \<mapsto> PartialFile) else files w)"
    using assms f
    by (cases r) (auto simp: merge_pdfs_def merge_try_def m rp Let_def split: sum.splits if_splits)
  show ?thesis
    using fl d d1 d2 m by simp
qed

theorem merge_pdfs_failure_witness:
  "\<not> fst (merge_pdfs env_ok ''cover.pdf'' ''secret.pdf'' ''out/merged.pdf'' True w0) \<and>
   files (snd (merge_pdfs env_ok ''cover.pdf'' ''secret.pdf'' ''out/merged.pdf'' True w0)) =
     files w0 \<and>
   dirs w0 = {''/tmp''} \<and>
   dirs (snd (merge_pdfs env_ok ''cover.pdf'' ''secret.pdf'' ''out/merged.pdf'' True w0)) =
     {''/tmp'', ''out''}"
proof -
  have a: "\<not> fst (merge_pdfs env_ok ''cover.pdf'' ''secret.pdf'' ''out/merged.pdf'' True w0)"
    by code_simp
  have b: "isl (read_pages w0 ''secret.pdf'')"
    "fst (make_dirs env_ok (parents ''out/merged.pdf'') w0) = Inr ()"
    "parents ''out/merged.pdf'' = [''out'']" "dirs w0 = {''/tmp''}"
    by code_simp+
  show ?thesis
    using a b merge_pdfs_failure [OF a] by auto
qed

text \<open>
  The claim as stated fails: the write fails, the call returns \<open>False\<close>, and a path that
  held nothing now holds a partial file.
\<close>

theorem merge_pdfs_failure_counterexample:
  "\<not> fst (merge_pdfs env_write_fails ''cover.pdf'' ''doc.pdf'' ''out.pdf'' False w0) \<and>
   files w0 ''out.pdf'' = None \<and>
   files (snd (merge_pdfs env_write_fails ''cover.pdf'' ''doc.pdf'' ''out.pdf'' False w0))
     ''out.pdf'' = Some PartialFile"
  by code_simp

text \<open>
  C6, as amended. After a successful call of \<open>merge_pdfs\<close> the file at \<open>output_path\<close>
  holds the pages of the cover sheet in order, then one blank page if and only if
  \<open>add_empty_page\<close> is set, then the pages of the document in order; every file at
  another path is as it was, so an input is left alone when \<open>output_path\<close> is not its
  path.
\<close>

theorem merge_pdfs_success:
  assumes "fst (merge_pdfs env coversheet_path document_path output_path add_empty_page w)"
  shows "\<exists>cps dps.
           read_pages w coversheet_path = Inr cps \<and> read_pages w document_path = Inr dps \<and>
           files (snd (merge_pdfs env coversheet_path document_path output_path add_empty_page w))
             output_path =
             Some (Pdf False (Inr (cps @ (if add_empty_page then [BlankPage] else []) @ dps))) \<and>
           (\<forall>p. p \<noteq> output_path \<longrightarrow>
              files (snd (merge_pdfs env coversheet_path document_path output_path
                            add_empty_page w)) p = files w p)"
proof -
  from merge_pdfs_ok [OF assms] obtain cps dps where
    "read_pages w coversheet_path = Inr cps" "read_pages w document_path = Inr dps"
    "files (snd (merge_pdfs env coversheet_path document_path output_path add_empty_page w)) =
       (files w)(output_path \<mapsto>
          Pdf False (Inr (cps @ (if add_empty_page then [BlankPage] else []) @ dps)))"
    by blast
  then show ?thesis by auto
qed

theorem merge_pdfs_success_witness:
  "fst (merge_pdfs env_ok ''cover.pdf'' ''doc.pdf'' ''out.pdf'' True w0) \<and>
   files (snd (merge_pdfs env_ok ''cover.pdf'' ''doc.pdf'' ''out.pdf'' True w0)) ''out.pdf'' =
     Some (Pdf False (Inr [cover_page, BlankPage, page_a, page_b])) \<and>
   files (snd (merge_pdfs env_ok ''cover.pdf'' ''doc.pdf'' ''out.pdf'' True w0)) ''cover.pdf'' =
     files w0 ''cover.pdf'' \<and>
   files (snd (merge_pdfs env_ok ''cover.pdf'' ''doc.pdf'' ''out.pdf'' True w0)) ''doc.pdf'' =
     files w0 ''doc.pdf''"
proof -
  have a: "fst (merge_pdfs env_ok ''cover.pdf'' ''doc.pdf'' ''out.pdf'' True w0)"
    by code_simp
  have b: "read_pages w0 ''cover.pdf'' = Inr [cover_page]" "read_pages w0 ''doc.pdf'' = Inr [page_a, page_b]"
    by code_simp+
  show ?thesis
    using a b merge_pdfs_success [OF a] by auto
qed

text \<open>
  The claim as stated fails when the output path is the path of an input: the call
  succeeds and the document is replaced by the merged file.
\<close>

theorem merge_pdfs_success_counterexample:
  "fst (merge_pdfs env_ok ''cover.pdf'' ''doc.pdf'' ''doc.pdf'' False w0) \<and>
   files w0 ''doc.pdf'' = Some (Pdf False (Inr [page_a, page_b])) \<and>
   files (snd (merge_pdfs env_ok ''cover.pdf'' ''doc.pdf'' ''doc.pdf'' False w0)) ''doc.pdf'' =
     Some (Pdf False (Inr [cover_page, page_a, page_b]))"
  by code_simp

section \<open>get_page_count\<close>

text \<open>
  C2. For a path whose document is encrypted, that is, one that \<open>PdfReader\<close> opens
  and reports as encrypted, \<open>get_page_count\<close> returns no page count together with
  encrypted = true; for a readable, unencrypted PDF it returns the number of its pages
  together with encrypted = false.
\<close>

theorem get_page_count_encrypted_or_count:
  "(files w p = Some (Pdf True pgs) \<longrightarrow> fst (get_page_count p w) = (None, True)) \<and>
   (files w p = Some (Pdf False (Inr ps)) \<longrightarrow>
      fst (get_page_count p w) = (Some (length ps), False))"
  by (simp add: get_page_count_def PdfReader_def)

theorem get_page_count_encrypted_or_count_witness:
  "files w0 ''secret.pdf'' = Some (Pdf True (Inl FileNotDecryptedError)) \<and>
   fst (get_page_count ''secret.pdf'' w0) = (None, True) \<and>
   files w0 ''doc.pdf'' = Some (Pdf False (Inr [page_a, page_b])) \<and>
   fst (get_page_count ''doc.pdf'' w0) = (Some 2, False)"
  using get_page_count_encrypted_or_count [of w0 "''secret.pdf''" "Inl FileNotDecryptedError"]
    get_page_count_encrypted_or_count [of w0 "''doc.pdf''" _ "[page_a, page_b]"]
  by (simp add: w0_def)

text \<open>
  C3, as amended. For a corrupt or unreadable path \<open>get_page_count\<close> returns the pair
  \<open>(None, False)\<close> and writes the cause to the error log only; the pair differs from the
  outcome for every encrypted document and from the outcome for every readable one.
\<close>

theorem get_page_count_unreadable:
  assumes "unreadable w p e"
  shows "get_page_count p w = ((None, False), logger ERROR (PdfReadFailed p e) w) \<and>
         (\<forall>w' q pgs. files w' q = Some (Pdf True pgs) \<longrightarrow>
            fst (get_page_count q w') \<noteq> fst (get_page_count p w)) \<and>
         (\<forall>w' q ps. files w' q = Some (Pdf False (Inr ps)) \<longrightarrow>
            fst (get_page_count q w') \<noteq> fst (get_page_count p w))"
  using assms
  by (auto simp: unreadable_def get_page_count_def PdfReader_def
      split: sum.splits option.splits file_data.splits)

theorem get_page_count_unreadable_witness:
  "unreadable w0 ''broken.pdf'' PdfReadError \<and>
   get_page_count ''broken.pdf'' w0 =
     ((None, False), logger ERROR (PdfReadFailed ''broken.pdf'' PdfReadError) w0) \<and>
   fst (get_page_count ''secret.pdf'' w0) \<noteq> fst (get_page_count ''broken.pdf'' w0) \<and>
   fst (get_page_count ''doc.pdf'' w0) \<noteq> fst (get_page_count ''broken.pdf'' w0)"
proof -
  have a: "unreadable w0 ''broken.pdf'' PdfReadError"
    by (simp add: unreadable_def PdfReader_def w0_def)
  have b: "files w0 ''secret.pdf'' = Some (Pdf True (Inl FileNotDecryptedError))"
    "files w0 ''doc.pdf'' = Some (Pdf False (Inr [page_a, page_b]))"
    by (simp_all add: w0_def)
  show ?thesis
    using a b get_page_count_unreadable [OF a] by blast
qed

text \<open>
  The claim as stated fails: a missing file and a file that is not a PDF are unreadable
  for different causes, and the results returned for them are equal, so the result does
  not carry the cause.
\<close>

theorem get_page_count_unreadable_counterexample:
  "unreadable w0 ''missing.pdf'' FileNotFoundError \<and>
   unreadable w0 ''broken.pdf'' PdfReadError \<and>
   fst (get_page_count ''missing.pdf'' w0) = fst (get_page_count ''broken.pdf'' w0)"
  by (simp add: unreadable_def get_page_count_def PdfReader_def w0_def)

section \<open>create_coversheet\<close>



text \<open>
  The test \<open>order.filepath.exists()\<close> is made before the rendering starts and is not
  guarded: when it raises, the call returns \<open>False\<close> and writes no cover sheet.
\<close>

lemma create_coversheet_fails_when_exists_raises:
  "fst (make_dirs env_stat_fails (parents ''out.pdf'') w0) = Inr () \<and>
   canvas_save_ok env_stat_fails \<and>
   \<not> fst (create_coversheet env_stat_fails order1 ''out.pdf'' w0) \<and>
   files (snd (create_coversheet env_stat_fails order1 ''out.pdf'' w0)) ''out.pdf'' = None"
  by code_simp

text \<open>
  C5. A temporary file created for the thumbnail is to be deleted before
  \<open>create_coversheet\<close> returns, on the success path and on every failure path. The code
  misses one path: when \<open>pix.save\<close> raises after \<open>NamedTemporaryFile(delete=False)\<close>
  has created the file, the renderer returns \<open>None\<close>, \<open>thumbnail_path\<close> stays unset,
  the \<open>finally\<close> block unlinks nothing, and the empty temporary file, which did not
  exist before the call, is still there after it. The call returns \<open>True\<close>, and
  \<open>unlink\<close> would have worked.
\<close>

theorem create_coversheet_leaves_thumbnail:
  "files w0 ''/tmp/tmpk3v9.png'' = None \<and>
   unlink_ok env_pix_save_fails \<and>
   fst (create_coversheet env_pix_save_fails order1 ''out.pdf'' w0) \<and>
   files (snd (create_coversheet env_pix_save_fails order1 ''out.pdf'' w0)) ''/tmp/tmpk3v9.png'' =
     Some EmptyFile"
  by code_simp

text \<open>
  What the \<open>finally\<close> block does achieve: when the thumbnail has been rendered, so
  that \<open>thumbnail_path\<close> is set at the end of the \<open>try\<close> body, and \<open>unlink\<close> does
  not fail, the temporary file does not exist after the call, whether the call returns
  \<open>True\<close> or \<open>False\<close>.
\<close>

lemma create_coversheet_unlinks_thumbnail:
  assumes "fst (coversheet_try env order output_path w) = Some p" and "unlink_ok env"
  shows "files w p = None \<and> files (snd (create_coversheet env order output_path w)) p = None"
proof -
  from coversheet_try_path [OF assms(1)] have p: "p = tmp_path env" "files w p = None" by blast+
  then have "p \<noteq> []" by (simp add: tmp_path_def)
  obtain r w' where t: "coversheet_try env order output_path w = (Some p, r, w')"
    using assms(1) by (cases "coversheet_try env order output_path w") simp
  have "files (cleanup env (Some p) w'') p = None" for w''
    using \<open>p \<noteq> []\<close> assms(2) by (simp add: cleanup_def)
  then show ?thesis
    using p(2) t by (cases r) (simp_all add: create_coversheet_def)
qed

lemma create_coversheet_unlinks_thumbnail_example:
  "fst (coversheet_try env_ok order1 ''out.pdf'' w0) = Some ''/tmp/tmpk3v9.png'' \<and>
   unlink_ok env_ok \<and>
   fst (create_coversheet env_ok order1 ''out.pdf'' w0) \<and>
   files (snd (create_coversheet env_ok order1 ''out.pdf'' w0)) ''/tmp/tmpk3v9.png'' = None \<and>
   fst (coversheet_try env_canvas_save_fails order1 ''out.pdf'' w0) = Some ''/tmp/tmpk3v9.png'' \<and>
   unlink_ok env_canvas_save_fails \<and>
   \<not> fst (create_coversheet env_canvas_save_fails order1 ''out.pdf'' w0) \<and>
   files (snd (create_coversheet env_canvas_save_fails order1 ''out.pdf'' w0))
     ''/tmp/tmpk3v9.png'' = None"
proof -
  have a: "fst (coversheet_try env_ok order1 ''out.pdf'' w0) = Some ''/tmp/tmpk3v9.png''"
    by code_simp
  have b: "fst (coversheet_try env_canvas_save_fails order1 ''out.pdf'' w0) =
             Some ''/tmp/tmpk3v9.png''"
    by code_simp
  have c: "unlink_ok env_ok" "unlink_ok env_canvas_save_fails"
    "fst (create_coversheet env_ok order1 ''out.pdf'' w0)"
    "\<not> fst (create_coversheet env_canvas_save_fails order1 ''out.pdf'' w0)"
    by code_simp+
  show ?thesis
    using a b c create_coversheet_unlinks_thumbnail [OF a c(1)]
      create_coversheet_unlinks_thumbnail [OF b c(2)]
    by simp
qed

text \<open>
  When \<open>unlink\<close> itself raises, the \<open>finally\<close> block drops the exception, and the
  temporary file is still there after the call.
\<close>

lemma thumbnail_left_when_unlink_fails:
  "files w0 ''/tmp/tmpk3v9.png'' = None \<and>
   fst (create_coversheet env_unlink_fails order1 ''out.pdf'' w0) \<and>
   files (snd (create_coversheet env_unlink_fails order1 ''out.pdf'' w0)) ''/tmp/tmpk3v9.png'' =
     Some (Png page_a)"
  by code_simp

text \<open>
  C7. On the cover sheet that a successful call of \<open>create_coversheet\<close> writes, the
  warning banner is drawn if and only if the status of the order is
  \<open>error_invalid_filename\<close>. The banner is, in red, the line
  \<open>ACHTUNG: Dateiname nicht korrekt!\<close>, the request to name the file properly next
  time, and the naming convention \<open>RZ-Kennung_sw/farbig_mb/ob/sh_001.pdf\<close>. The
  temporary file has a name of its own, which is not the output path.
\<close>

theorem create_coversheet_banner:
  assumes "fst (create_coversheet env order output_path w)" and "tmp_path env \<noteq> output_path"
  shows "coversheet_at (snd (create_coversheet env order output_path w)) output_path \<noteq> None \<and>
         has_banner (snd (create_coversheet env order output_path w)) output_path =
           (status order = ''error_invalid_filename'')"
proof -
  have "has_banner w' p = (case coversheet_at w' p of None \<Rightarrow> False
          | Some ops \<Rightarrow> sublist banner_ops ops)" for w' p
    unfolding has_banner_def banner_text ..
  then show ?thesis
    by (simp add: coversheet_written [OF assms] banner_in_canvas [OF red_not_in_preview_of])
qed

theorem create_coversheet_banner_witness:
  "fst (create_coversheet env_ok order_invalid ''out.pdf'' w0) \<and>
   tmp_path env_ok \<noteq> ''out.pdf'' \<and>
   status order_invalid = ''error_invalid_filename'' \<and>
   coversheet_at (snd (create_coversheet env_ok order_invalid ''out.pdf'' w0)) ''out.pdf'' =
     Some sheet_invalid \<and>
   has_banner (snd (create_coversheet env_ok order_invalid ''out.pdf'' w0)) ''out.pdf'' \<and>
   fst (create_coversheet env_ok order1 ''out.pdf'' w0) \<and>
   status order1 = ''processed'' \<and>
   \<not> has_banner (snd (create_coversheet env_ok order1 ''out.pdf'' w0)) ''out.pdf''"
proof -
  have a: "fst (create_coversheet env_ok order_invalid ''out.pdf'' w0)"
    "fst (create_coversheet env_ok order1 ''out.pdf'' w0)"
    by code_simp+
  have b: "tmp_path env_ok \<noteq> ''out.pdf''"
    by code_simp
  have c: "status order_invalid = ''error_invalid_filename''" "status order1 = ''processed''"
    by (simp_all add: order_invalid_def order1_def)
  have d: "coversheet_at (snd (create_coversheet env_ok order_invalid ''out.pdf'' w0))
             ''out.pdf'' = Some sheet_invalid"
    by code_simp
  show ?thesis
    using a b c d create_coversheet_banner [OF a(1) b] create_coversheet_banner [OF a(2) b]
    by simp
qed

text \<open>
  C9, as amended. The name printed large on the cover sheet is the full name of the
  identity if one is attached, otherwise the name parsed from the file name if it is set
  and not empty, otherwise the parsed user name if it is set and not empty, otherwise
  \<open>Unbekannt\<close>. It is not empty unless an identity with an empty full name is attached.
  This is the name on the cover sheet that a successful call of \<open>create_coversheet\<close>
  writes, the temporary file having a name of its own, which is not the output path.
\<close>

theorem create_coversheet_name:
  assumes "fst (create_coversheet env order output_path w)" and "tmp_path env \<noteq> output_path"
  shows "\<exists>n. displayed_name (snd (create_coversheet env order output_path w)) output_path = Some n \<and>
   (\<forall>u. user order = Some u \<longrightarrow> n = full_name u) \<and>
   (user order = None \<and> truthy (parsed_name order) \<longrightarrow> Some n = parsed_name order) \<and>
   (user order = None \<and> \<not> truthy (parsed_name order) \<and> truthy (parsed_username order) \<longrightarrow>
      Some n = parsed_username order) \<and>
   (user order = None \<and> \<not> truthy (parsed_name order) \<and> \<not> truthy (parsed_username order) \<longrightarrow>
      n = ''Unbekannt'') \<and>
   ((\<forall>u. user order = Some u \<longrightarrow> full_name u \<noteq> []) \<longrightarrow> n \<noteq> [])"
proof -
  have "displayed_name (snd (create_coversheet env order output_path w)) output_path =
          Some (name_text order)"
    by (simp add: displayed_name_def coversheet_written [OF assms] prominent_text_canvas)
  with name_text_precedence [of order] show ?thesis by blast
qed

theorem create_coversheet_name_witness:
  "fst (create_coversheet env_ok order1 ''out.pdf'' w0) \<and>
   tmp_path env_ok \<noteq> ''out.pdf'' \<and>
   displayed_name (snd (create_coversheet env_ok order1 ''out.pdf'' w0)) ''out.pdf'' =
     Some ''ab12345''"
proof -
  have a: "fst (create_coversheet env_ok order1 ''out.pdf'' w0)"
    by code_simp
  have b: "tmp_path env_ok \<noteq> ''out.pdf''"
    by code_simp
  show ?thesis
    using a b create_coversheet_name [OF a b]
    by (auto simp: order1_def)
qed

text \<open>
  The claim as stated fails: for an order whose identity has an empty full name the
  cover sheet shows the empty name.
\<close>

theorem create_coversheet_name_counterexample:
  "fst (create_coversheet env_ok order_unnamed_user ''out.pdf'' w0) \<and>
   displayed_name (snd (create_coversheet env_ok order_unnamed_user ''out.pdf'' w0)) ''out.pdf'' =
     Some []"
proof -
  have a: "fst (create_coversheet env_ok order_unnamed_user ''out.pdf'' w0)"
    by code_simp
  have b: "tmp_path env_ok \<noteq> ''out.pdf''"
    by code_simp
  have c: "displayed_name (snd (create_coversheet env_ok order_unnamed_user ''out.pdf'' w0))
             ''out.pdf'' = Some (name_text order_unnamed_user)"
    by (simp add: displayed_name_def coversheet_written [OF a b] prominent_text_canvas)
  have d: "name_text order_unnamed_user = []"
    by (simp add: name_text_def order_unnamed_user_def)
  show ?thesis
    using a c d by simp
qed

section \<open>Pricing\<close>

text \<open>
  C8. For every price calculation that the pricing engine produces, the price after the
  deposit is \<open>max(0, total_price - deposit)\<close>, and so it is never negative.
\<close>

theorem price_after_deposit_clamped:
  "price_after_deposit (price tbl n_pages cm bt size_mm) =
     max 0 (total_price (price tbl n_pages cm bt size_mm) - deposit (price tbl n_pages cm bt size_mm)) \<and>
   0 \<le> price_after_deposit (price tbl n_pages cm bt size_mm)"
  by (simp add: price_after_deposit_def)

theorem price_after_deposit_clamped_witness:
  "total_price (price table1 2 ''sw'' ''none'' None) = 8/100 \<and>
   deposit (price table1 2 ''sw'' ''none'' None) = 1 \<and>
   price_after_deposit (price table1 2 ''sw'' ''none'' None) = 0"
  using price_after_deposit_clamped [of table1 2 "''sw''" "''none''" None]
  by (simp add: price_def table1_def Let_def)

section \<open>setup_logging\<close>

text \<open>
  The name of a level is looked up in upper case, also when it is written with a
  character whose upper-case form is ASCII.
\<close>

lemma upper_examples:
  "upper ''basic_format'' = ''BASIC_FORMAT''"
  "upper (''ba'' @ [CHR 0xC5, CHR 0xBF] @ ''ic_format'') = ''BASIC_FORMAT''"
  "upper (''_'' @ [CHR 0xEF, CHR 0xAC, CHR 0x86] @ ''yles'') = ''_STYLES''"
  "upper (''cr'' @ [CHR 0xC4, CHR 0xB1] @ ''tical'') = ''CRITICAL''"
  by (simp_all add: upper_char_def ligature_upper_def)

lemma setup_logging_ok:
  assumes "fst (setup_logging env level log_file use_rich s) = Inr ()"
  shows "handlers_ok (handlers (app_logger (snd (setup_logging env level log_file use_rich s)))) \<and>
         logging_configured (snd (setup_logging env level log_file use_rich s))"
  using assms
  by (auto simp: setup_logging_def secure_root_def addHandler_def handlers_ok_def Let_def
      split: sum.splits option.splits if_splits)


lemma setup_logging_idem:
  "setup_logging env level log_file use_rich (snd (setup_logging env level log_file use_rich s)) =
   setup_logging env level log_file use_rich s"
  by (auto simp: setup_logging_def secure_root_def addHandler_def Let_def
      split: sum.splits option.splits if_splits)

lemma level_INFO: "log_level_of ''INFO'' = PyInt 20"
  by code_simp

lemma get_logger_returns:
  "fst (get_logger env name s) = Inr (''skriptendruck.'' @ name)"
proof -
  have "fst (setup_logging env ''INFO'' None True s) = Inr ()"
    by (simp add: setup_logging_def level_INFO checkLevel_def Let_def)
  then show ?thesis
    by (cases "setup_logging env ''INFO'' None True s")
      (auto simp: get_logger_def split: sum.splits)
qed






end
